theory Spec2Isabelle
  imports Complex_Main "HOL-Library.AList" "HOL-Library.Sublist"
begin

section \<open>Python values, exceptions and effects\<close>

text \<open>
  The two modules are glue code over library calls. Every call that leaves the code
  (into brainspy, torch or matplotlib) is recorded as an event; a routine is a pair of
  the events it has emitted and its outcome, \<open>Inl\<close> an exception and \<open>Inr\<close> a
  normal return. The numbers of the arrays are values of a type \<open>'n\<close> that is left
  open (the floating-point values); arithmetic on them is done by the libraries and is
  a parameter, so that no law of exact arithmetic and no particular rounding is built
  in. Arrays and tensors are lists of numbers.
\<close>

datatype py_error =
    KeyError string
  | IndexError
  | ValueError
  | ZeroDivisionError
  | Raised string

datatype 'o pyval = PyNone | PyBool bool | PyInt int | PyStr string | PyObj 'o

type_synonym ('e, 'a) io = "'e list \<times> (py_error + 'a)"

definition ret :: "'a \<Rightarrow> ('e, 'a) io" where
  "ret x = ([], Inr x)"

definition emit :: "'e \<Rightarrow> ('e, unit) io" where
  "emit e = ([e], Inr ())"

text \<open>A pure operation that may raise (a dictionary or list lookup), with no event.\<close>

definition lift :: "py_error + 'a \<Rightarrow> ('e, 'a) io" where
  "lift r = ([], r)"

text \<open>A call of an external function: the call is recorded, then it returns or raises.\<close>

definition call :: "'e \<Rightarrow> py_error + 'a \<Rightarrow> ('e, 'a) io" where
  "call e r = ([e], r)"

definition bind_io :: "('e, 'a) io \<Rightarrow> ('a \<Rightarrow> ('e, 'b) io) \<Rightarrow> ('e, 'b) io" where
  "bind_io m f =
     (case m of
        (t, Inl e) \<Rightarrow> (t, Inl e)
      | (t, Inr x) \<Rightarrow> (case f x of (t', r) \<Rightarrow> (t @ t', r)))"

definition then_io :: "('e, unit) io \<Rightarrow> ('e, 'b) io \<Rightarrow> ('e, 'b) io" where
  "then_io m k = bind_io m (\<lambda>_. k)"

text \<open>\<open>d[k]\<close> on a dictionary, \<open>xs[i]\<close> on a list with a non-negative literal index.\<close>

definition getitem :: "(string \<times> 'v) list \<Rightarrow> string \<Rightarrow> py_error + 'v" where
  "getitem d k = (case map_of d k of None \<Rightarrow> Inl (KeyError k) | Some v \<Rightarrow> Inr v)"

definition index :: "'a list \<Rightarrow> nat \<Rightarrow> py_error + 'a" where
  "index xs i = (if i < length xs then Inr (xs ! i) else Inl IndexError)"

text \<open>
  \<open>os.path.join(a, b)\<close> for two components (posixpath): an absolute \<open>b\<close> replaces
  \<open>a\<close>; otherwise a separator is put between them unless \<open>a\<close> is empty or already
  ends with one.
\<close>

definition os_path_join :: "string \<Rightarrow> string \<Rightarrow> string" where
  "os_path_join a b =
     (if b \<noteq> [] \<and> hd b = CHR ''/'' then b
      else if a = [] \<or> last a = CHR ''/'' then a @ b
      else a @ ''/'' @ b)"

section \<open>matplotlib calls\<close>

text \<open>The pieces of an f-string or of a \<open>str\<close> concatenation, before rendering.\<close>

datatype 'n fpart = Lit string | Num 'n | IntNum int

datatype fname = FNone | FBool bool | FStr string

datatype 'n ax_call =
    AxPlotXY "'n list" "'n list" nat
  | AxPlotY "'n list" string nat
  | AxPlotEmpty
  | AxSetYlabel string "int option"
  | AxSetXlabel string "int option"
  | AxSetTitle string
  | AxXGrid bool
  | AxYGrid bool
  | AxLegend

datatype 'n plt_call =
    Figure
  | Title "'n fpart list"
  | Suptitle "'n fpart list"
  | Subplot nat nat nat
  | Plot "'n list list" "string option" "'n fpart list"
  | Xlabel string
  | Ylabel string
  | Hist "'n list" nat
  | Xlim 'n 'n
  | Legend "string list"
  | TightLayout
  | Savefig fname "nat option"
  | Close
  | Show
  | GetCmap string
  | Subplots nat nat
  | FigSuptitle string
  | SubplotsAdjust rat rat
  | Ax nat nat "'n ax_call"

section \<open>train\_model.py\<close>

text \<open>
  A dataset is a sequence of samples, each an input vector with its target value;
  \<open>dataset[:n]\<close> is its first \<open>n\<close> samples and \<open>inputs, targets = dataset[:]\<close>
  are the two columns. A dataloader has a dataset and a length, its number of batches.
\<close>

type_synonym 'n dataset = "('n list \<times> 'n) list"

record 'n dataloader =
  dataset :: "'n dataset"
  num_batches :: nat

type_synonym 'o configs = "(string \<times> 'o pyval) list"

type_synonym 'n performances = "(string \<times> 'n list list) list"

datatype ('o, 'n) event =
    CreateDirectoryTimestamp "'o pyval" string
  | InitSeed "'o pyval" bool
  | LoadData "'o configs"
  | Train 'o "'n dataloader \<times> 'n dataloader" 'o 'o "'o pyval" "'o pyval" string
  | Print string
  | NoGradEnter
  | NoGradExit
  | ModelEval 'o
  | ModelCall 'o "'n list list"
  | GetNumpyFromTensor "'n list"
  | PlotAll "'n list" "'n list" string string
  | Plt "'n plt_call"

text \<open>
  The functions imported from outside the two modules. Each may raise. \<open>model_eval\<close>
  is the state of a model object after \<open>model.eval()\<close>. The last three are the
  arithmetic of the libraries, in floating point: \<open>times_array a xs\<close> is
  \<open>a * xs\<close> for a number and an array (lines 78 and 79), \<open>array_times xs a\<close> is
  \<open>xs * a\<close> (line 50) and \<open>power a k\<close> is \<open>a ** k\<close>, which raises
  \<open>OverflowError\<close> on a Python float that is too large. \<open>matplotlib\<close> is the
  outcome of a call into \<open>matplotlib.pyplot\<close>.
\<close>

record ('o, 'n) externals =
  create_directory_timestamp :: "'o pyval \<Rightarrow> string \<Rightarrow> py_error + string"
  init_seed :: "'o pyval \<Rightarrow> bool \<Rightarrow> py_error + 'o pyval"
  load_data :: "'o configs \<Rightarrow> py_error + 'n dataloader list \<times> 'n"
  train ::
    "'o \<Rightarrow> 'n dataloader \<times> 'n dataloader \<Rightarrow> 'o \<Rightarrow> 'o \<Rightarrow> 'o pyval \<Rightarrow> 'o pyval \<Rightarrow> string
       \<Rightarrow> py_error + 'o \<times> 'n performances"
  model_eval :: "'o \<Rightarrow> 'o"
  model_call :: "'o \<Rightarrow> 'n list list \<Rightarrow> py_error + 'n list"
  get_numpy_from_tensor :: "'n list \<Rightarrow> py_error + 'n list"
  plot_all :: "'n list \<Rightarrow> 'n list \<Rightarrow> string \<Rightarrow> string \<Rightarrow> py_error + unit"
  times_array :: "'n \<Rightarrow> 'n list \<Rightarrow> py_error + 'n list"
  array_times :: "'n list \<Rightarrow> 'n \<Rightarrow> py_error + 'n list"
  power :: "'n \<Rightarrow> nat \<Rightarrow> py_error + 'n"
  matplotlib :: "'n plt_call \<Rightarrow> py_error + unit"

text \<open>\<open>with torch.no_grad(): body\<close>: the context is left on return and on exception.\<close>

definition with_no_grad :: "(('o, 'n) event, 'a) io \<Rightarrow> (('o, 'n) event, 'a) io" where
  "with_no_grad body = (case body of (t, r) \<Rightarrow> (NoGradEnter # t @ [NoGradExit], r))"

definition numpy_of :: "('o, 'n) externals \<Rightarrow> 'n list \<Rightarrow> (('o, 'n) event, 'n list) io" where
  "numpy_of ext t = call (GetNumpyFromTensor t) (get_numpy_from_tensor ext t)"

definition plt :: "('o, 'n) externals \<Rightarrow> 'n plt_call \<Rightarrow> (('o, 'n) event, unit) io" where
  "plt ext c = call (Plt c) (matplotlib ext c)"

text \<open>
  \<open>postprocess\<close>, lines 63 to 80. The model object is put in evaluation mode, which the
  caller sees: the model after the call is returned.
\<close>

definition postprocess ::
  "('o, 'n) externals \<Rightarrow> 'n dataset \<Rightarrow> 'o \<Rightarrow> 'n \<Rightarrow> string \<Rightarrow> string
     \<Rightarrow> (('o, 'n) event, 'o) io" where
  "postprocess ext ds model amplification results_dir label =
     then_io (emit (Print (''Postprocessing '' @ label @ '' data ... '')))
    (bind_io (with_no_grad
        (then_io (emit (ModelEval model))
        (let model' = model_eval ext model;
             inputs = map fst ds;
             targets = map snd ds
         in bind_io (call (ModelCall model' inputs) (model_call ext model' inputs))
              (\<lambda>predictions. ret (model', targets, predictions)))))
       (\<lambda>(model', targets, predictions).
     bind_io (numpy_of ext targets) (\<lambda>targets_np.
     bind_io (lift (times_array ext amplification targets_np)) (\<lambda>train_targets.
     bind_io (numpy_of ext predictions) (\<lambda>predictions_np.
     bind_io (lift (times_array ext amplification predictions_np)) (\<lambda>train_output.
     then_io (call (PlotAll train_targets train_output results_dir label)
                (plot_all ext train_targets train_output results_dir label))
       (ret model')))))))"

text \<open>
  The list comprehension of line 50: one entry per index of the performance history,
  each the array of that index times \<open>amplification ** 2\<close>, which is computed again
  for every entry.
\<close>

fun training_profile_of ::
  "('o, 'n) externals \<Rightarrow> 'n list list \<Rightarrow> 'n \<Rightarrow> nat list
     \<Rightarrow> (('o, 'n) event, 'n list list) io" where
  "training_profile_of ext history amplification [] = ret []"
| "training_profile_of ext history amplification (i # is) =
     bind_io (lift (index history i)) (\<lambda>h.
     bind_io (numpy_of ext h) (\<lambda>h_np.
     bind_io (lift (power ext amplification 2)) (\<lambda>squared.
     bind_io (lift (array_times ext h_np squared)) (\<lambda>entry.
     bind_io (training_profile_of ext history amplification is) (\<lambda>rest.
     ret (entry # rest))))))"

text \<open>
  Lines 33 to 59 of \<open>train_surrogate_model\<close>, what it does once \<open>train\<close> has
  returned: the splits are post-processed, then the training profile is plotted and
  saved.
\<close>

definition postprocess_and_plot ::
  "('o, 'n) externals \<Rightarrow> 'o configs \<Rightarrow> 'n dataloader list \<Rightarrow> 'n \<Rightarrow> string \<Rightarrow> 'o
     \<Rightarrow> 'n performances \<Rightarrow> (('o, 'n) event, 'o configs) io" where
  "postprocess_and_plot ext configs dataloaders amplification results_dir model performances =
     bind_io (lift (index dataloaders 0)) (\<lambda>dl0.
     bind_io (postprocess ext (dataset dl0) model amplification results_dir ''TRAINING'')
        (\<lambda>model.
     bind_io (lift (index dataloaders 1)) (\<lambda>dl1.
     bind_io (if num_batches dl1 > 0
              then postprocess ext (dataset dl1) model amplification results_dir ''VALIDATION''
              else bind_io (lift (index dataloaders 0)) (\<lambda>dl0.
                   postprocess ext (take 1000 (dataset dl0)) model amplification results_dir
                     ''VALIDATION''))
        (\<lambda>model.
     bind_io (lift (index dataloaders 2)) (\<lambda>dl2.
     bind_io (if num_batches dl2 > 0
              then postprocess ext (dataset dl2) model amplification results_dir ''TEST''
              else ret model)
        (\<lambda>model.
     bind_io (lift (getitem performances ''performance_history'')) (\<lambda>history.
     bind_io (training_profile_of ext history amplification [0..<length history])
        (\<lambda>training_profile.
     then_io (plt ext Figure)
    (then_io (plt ext (Plot training_profile None []))
    (then_io (plt ext (Title [Lit ''Training profile'']))
    (then_io (plt ext (Legend [''training'', ''validation'']))
    (then_io (plt ext (Savefig (FStr (os_path_join results_dir ''training_profile'')) None))
    (then_io (emit (Print (''Model saved in :'' @ results_dir)))
       (ret configs))))))))))))))"

text \<open>
  \<open>train_surrogate_model\<close>, lines 14 to 59. It returns nothing; what the caller sees
  afterwards is the dictionary \<open>configs\<close> as the routine has written it, which is the
  value of a normal return here.
\<close>

definition train_surrogate_model ::
  "('o, 'n) externals \<Rightarrow> 'o configs \<Rightarrow> 'o \<Rightarrow> 'o \<Rightarrow> 'o \<Rightarrow> 'o pyval \<Rightarrow> string
     \<Rightarrow> (('o, 'n) event, 'o configs) io" where
  "train_surrogate_model ext configs model criterion optimizer logger main_folder =
     bind_io (lift (getitem configs ''results_base_dir'')) (\<lambda>base.
     bind_io (call (CreateDirectoryTimestamp base main_folder)
                (create_directory_timestamp ext base main_folder)) (\<lambda>results_dir.
     let seed = (case map_of configs ''seed'' of Some s \<Rightarrow> s | None \<Rightarrow> PyNone) in
     bind_io (call (InitSeed seed True) (init_seed ext seed True)) (\<lambda>seed.
     let configs = AList.update ''seed'' seed configs in
     bind_io (call (LoadData configs) (load_data ext configs)) (\<lambda>(dataloaders, amplification).
     bind_io (lift (index dataloaders 0)) (\<lambda>dl0.
     bind_io (lift (index dataloaders 1)) (\<lambda>dl1.
     bind_io (lift (getitem configs ''hyperparameters'')) (\<lambda>hyper.
     bind_io (call (Train model (dl0, dl1) criterion optimizer hyper logger results_dir)
                (train ext model (dl0, dl1) criterion optimizer hyper logger results_dir))
        (\<lambda>(model, performances).
     postprocess_and_plot ext configs dataloaders amplification results_dir model
       performances))))))))"

text \<open>
  The argument that \<open>init_seed\<close> receives (lines 17 to 20), the stage of the routine
  that an event belongs to, and the calls of \<open>plot_all\<close> in a run, each with its
  label and its two arrays.
\<close>

definition seed_argument :: "'o configs \<Rightarrow> 'o pyval" where
  "seed_argument configs = (case map_of configs ''seed'' of Some s \<Rightarrow> s | None \<Rightarrow> PyNone)"



fun plot_all_calls :: "('o, 'n) event list \<Rightarrow> (string \<times> 'n list \<times> 'n list) list" where
  "plot_all_calls [] = []"
| "plot_all_calls (PlotAll targets outputs save_dir label # es) =
     (label, targets, outputs) # plot_all_calls es"
| "plot_all_calls (_ # es) = plot_all_calls es"

section \<open>A concrete run\<close>

text \<open>
  The nearest number of IEEE 754 binary32 (a significand of 24 bits, ties to even), for
  numbers in the normal range: \<open>ulp_search\<close> finds the spacing of the binary32
  numbers around \<open>x\<close>. It is what numpy does to each product of a float32 array.
\<close>

definition round_half_even :: "real \<Rightarrow> int" where
  "round_half_even x =
     (let f = \<lfloor>x\<rfloor>; d = x - of_int f
      in if d < 1 / 2 then f else if 1 / 2 < d then f + 1 else if even f then f else f + 1)"

fun ulp_search :: "nat \<Rightarrow> real \<Rightarrow> real \<Rightarrow> real" where
  "ulp_search 0 u x = u"
| "ulp_search (Suc n) u x =
     (if 16777216 * u \<le> x then ulp_search n (2 * u) x
      else if x < 8388608 * u then ulp_search n (u / 2) x
      else u)"

definition binary32 :: "real \<Rightarrow> real" where
  "binary32 x =
     (if x = 0 then 0
      else let u = ulp_search 300 1 \<bar>x\<bar>
           in sgn x * of_int (round_half_even (\<bar>x\<bar> / u)) * u)"

text \<open>
  An instance of the external functions and of the arguments, on which the routine
  can be evaluated: two training samples in one batch, an empty validation loader and
  a test loader of length zero. The arrays hold binary32 numbers and each product is
  rounded to binary32; \<open>tenth\<close> and \<open>seven_tenths\<close> are the binary32 numbers
  nearest to 0.1 and to 0.7.
\<close>

definition tenth :: real where
  "tenth = 13421773 / 134217728"

definition seven_tenths :: real where
  "seven_tenths = 11744051 / 16777216"

definition demo_samples :: "real dataset" where
  "demo_samples = [([1, 2], 3), ([4, 5], 6)]"

definition tenth_samples :: "real dataset" where
  "tenth_samples = [([tenth], tenth), ([seven_tenths], seven_tenths)]"

definition demo_loaders :: "real dataloader list" where
  "demo_loaders =
     [\<lparr>dataset = demo_samples, num_batches = 1\<rparr>,
      \<lparr>dataset = [], num_batches = 0\<rparr>,
      \<lparr>dataset = [([7, 8], 9)], num_batches = 0\<rparr>]"

definition demo_externals :: "(nat, real) externals" where
  "demo_externals =
     \<lparr>create_directory_timestamp =
        (\<lambda>base name. case base of PyStr b \<Rightarrow> Inr (os_path_join b (name @ ''_2021_01_01''))
                       | _ \<Rightarrow> Inl (Raised ''TypeError'')),
      init_seed = (\<lambda>seed deterministic. case seed of PyNone \<Rightarrow> Inr (PyInt 7) | v \<Rightarrow> Inr v),
      load_data = (\<lambda>configs. Inr (demo_loaders, 10)),
      train = (\<lambda>model loaders criterion optimizer hyper logger save_dir.
                 Inr (Suc model, [(''performance_history'', [[tenth, 1], [9, 2]])])),
      model_eval = (\<lambda>model. model),
      model_call = (\<lambda>model inputs. Inr (map sum_list inputs)),
      get_numpy_from_tensor = (\<lambda>t. Inr t),
      plot_all = (\<lambda>targets outputs save_dir name. Inr ()),
      times_array = (\<lambda>a xs. Inr (map (\<lambda>x. binary32 (a * x)) xs)),
      array_times = (\<lambda>xs a. Inr (map (\<lambda>x. binary32 (x * a)) xs)),
      power = (\<lambda>a k. Inr (a ^ k)),
      matplotlib = (\<lambda>c. Inr ())\<rparr>"

definition demo_configs :: "nat configs" where
  "demo_configs = [(''results_base_dir'', PyStr ''tmp''), (''hyperparameters'', PyObj 5)]"

definition demo_trace :: "(nat, real) event list" where
  "demo_trace =
     [CreateDirectoryTimestamp (PyStr ''tmp'') ''training_data'',
      InitSeed PyNone True,
      LoadData (demo_configs @ [(''seed'', PyInt 7)]),
      Train 0 (demo_loaders ! 0, demo_loaders ! 1) 1 2 (PyObj 5) PyNone
        ''tmp/training_data_2021_01_01'',
      Print ''Postprocessing TRAINING data ... '', NoGradEnter, ModelEval 1,
      ModelCall 1 [[1, 2], [4, 5]], NoGradExit,
      GetNumpyFromTensor [3, 6], GetNumpyFromTensor [3, 9],
      PlotAll [30, 60] [30, 90] ''tmp/training_data_2021_01_01'' ''TRAINING'',
      Print ''Postprocessing VALIDATION data ... '', NoGradEnter, ModelEval 1,
      ModelCall 1 [[1, 2], [4, 5]], NoGradExit,
      GetNumpyFromTensor [3, 6], GetNumpyFromTensor [3, 9],
      PlotAll [30, 60] [30, 90] ''tmp/training_data_2021_01_01'' ''VALIDATION'',
      GetNumpyFromTensor [tenth, 1], GetNumpyFromTensor [9, 2],
      Plt Figure, Plt (Plot [[10, 100], [900, 200]] None []),
      Plt (Title [Lit ''Training profile'']),
      Plt (Legend [''training'', ''validation'']),
      Plt (Savefig (FStr ''tmp/training_data_2021_01_01/training_profile'') None),
      Print ''Model saved in :tmp/training_data_2021_01_01'']"

definition demo_postprocess_trace :: "(nat, real) event list" where
  "demo_postprocess_trace =
     [Print ''Postprocessing TRAINING data ... '', NoGradEnter, ModelEval 1,
      ModelCall 1 [[1, 2], [4, 5]], NoGradExit,
      GetNumpyFromTensor [3, 6], GetNumpyFromTensor [3, 9],
      PlotAll [30, 60] [30, 90] ''out'' ''TRAINING'']"

definition tenth_postprocess_trace :: "(nat, real) event list" where
  "tenth_postprocess_trace =
     [Print ''Postprocessing TRAINING data ... '', NoGradEnter, ModelEval 1,
      ModelCall 1 [[tenth], [seven_tenths]], NoGradExit,
      GetNumpyFromTensor [tenth, seven_tenths], GetNumpyFromTensor [tenth, seven_tenths],
      PlotAll [5033165 / 16777216, 4404019 / 2097152] [5033165 / 16777216, 4404019 / 2097152]
        ''out'' ''TRAINING'']"

section \<open>plots.py\<close>

text \<open>
  The plotting routines call numpy and matplotlib only. The outcome of a call into
  matplotlib and the numerical functions are parameters: \<open>np_min\<close> and \<open>np_max\<close>
  raise \<open>ValueError\<close> on an empty array, \<open>times_literal c x\<close> is \<open>c * x\<close> for a
  literal \<open>c\<close>, \<open>int_quotient a b\<close> is \<open>int(a / b)\<close>, the floating-point quotient
  cut to an integer, which raises \<open>ZeroDivisionError\<close> for a zero divisor.
  \<open>points_to_plateaus\<close> stands for the whole expression
  \<open>wm.points_to_plateaus(torch.tensor(x)).detach().cpu().numpy()\<close> on a
  \<open>WaveformManager\<close> built from the given configuration.
\<close>

record wm_config =
  slope_length :: int
  plateau_length :: int

datatype 'n plots_event =
    Mpl "'n plt_call"
  | WaveformManager wm_config
  | PointsToPlateaus wm_config "'n list"

record 'n plots_externals =
  mpl :: "'n plt_call \<Rightarrow> py_error + unit"
  np_min :: "'n list \<Rightarrow> py_error + 'n"
  np_max :: "'n list \<Rightarrow> py_error + 'n"
  np_sqrt :: "'n \<Rightarrow> 'n"
  np_abs :: "'n \<Rightarrow> 'n"
  np_linspace :: "'n \<Rightarrow> 'n \<Rightarrow> nat \<Rightarrow> 'n list"
  np_zeros_like :: "'n list \<Rightarrow> 'n list"
  times_literal :: "rat \<Rightarrow> 'n \<Rightarrow> 'n"
  negate :: "'n \<Rightarrow> 'n"
  int_quotient :: "'n \<Rightarrow> 'n \<Rightarrow> py_error + int"
  waveform_manager :: "wm_config \<Rightarrow> py_error + unit"
  points_to_plateaus :: "wm_config \<Rightarrow> 'n list \<Rightarrow> py_error + 'n list"

definition plt_call :: "'n plots_externals \<Rightarrow> 'n plt_call \<Rightarrow> ('n plots_event, unit) io" where
  "plt_call ext c = call (Mpl c) (mpl ext c)"



























text \<open>The calls of \<open>savefig\<close> in a trace, and whether an event is one.\<close>

fun savefig_calls :: "'n plots_event list \<Rightarrow> (fname \<times> nat option) list" where
  "savefig_calls [] = []"
| "savefig_calls (Mpl (Savefig f dpi) # es) = (f, dpi) # savefig_calls es"
| "savefig_calls (_ # es) = savefig_calls es"












section \<open>Sequencing lemmas\<close>

lemma bind_io_Inr:
  "bind_io m f = (tr, Inr y) \<longleftrightarrow>
     (\<exists>t1 x t2. m = (t1, Inr x) \<and> f x = (t2, Inr y) \<and> tr = t1 @ t2)"
  by (auto simp: bind_io_def split: prod.splits sum.splits)

lemma then_io_Inr:
  "then_io m k = (tr, Inr y) \<longleftrightarrow>
     (\<exists>t1 t2. m = (t1, Inr ()) \<and> k = (t2, Inr y) \<and> tr = t1 @ t2)"
  by (auto simp: then_io_def bind_io_Inr)

lemma lift_Inr: "lift r = (t, Inr x) \<longleftrightarrow> t = [] \<and> r = Inr x"
  by (auto simp: lift_def)

lemma call_Inr: "call e r = (t, Inr x) \<longleftrightarrow> t = [e] \<and> r = Inr x"
  by (auto simp: call_def)

lemma emit_Inr: "emit e = (t, Inr x) \<longleftrightarrow> t = [e]"
  by (auto simp: emit_def)

lemma ret_Inr: "ret v = (t, Inr x) \<longleftrightarrow> t = [] \<and> x = v"
  by (auto simp: ret_def)

lemma with_no_grad_Inr:
  "with_no_grad body = (tr, Inr x) \<longleftrightarrow>
     (\<exists>t. body = (t, Inr x) \<and> tr = NoGradEnter # t @ [NoGradExit])"
  by (auto simp: with_no_grad_def split: prod.splits)

lemmas io_Inr = bind_io_Inr then_io_Inr lift_Inr call_Inr emit_Inr ret_Inr with_no_grad_Inr

lemma index_Inr: "index xs i = Inr x \<longleftrightarrow> i < length xs \<and> x = xs ! i"
  by (auto simp: index_def)

lemma postprocess_success:
  assumes "postprocess ext ds model amp dir label = (tr, Inr m')"
  shows "\<exists>preds t_np p_np targets outputs.
      model_call ext (model_eval ext model) (map fst ds) = Inr preds \<and>
      get_numpy_from_tensor ext (map snd ds) = Inr t_np \<and>
      get_numpy_from_tensor ext preds = Inr p_np \<and>
      times_array ext amp t_np = Inr targets \<and>
      times_array ext amp p_np = Inr outputs \<and>
      plot_all ext targets outputs dir label = Inr () \<and>
      m' = model_eval ext model \<and>
      tr = [Print (''Postprocessing '' @ label @ '' data ... ''), NoGradEnter,
            ModelEval model, ModelCall (model_eval ext model) (map fst ds), NoGradExit,
            GetNumpyFromTensor (map snd ds), GetNumpyFromTensor preds,
            PlotAll targets outputs dir label]"
  using assms
  by (auto simp: postprocess_def io_Inr numpy_of_def Let_def split: prod.splits)


lemma training_profile_of_success:
  "training_profile_of ext history amp is = (tr, Inr profile) \<Longrightarrow>
     length profile = length is \<and>
     (\<forall>k < length is. is ! k < length history \<and>
        (\<exists>h_np squared.
            get_numpy_from_tensor ext (history ! (is ! k)) = Inr h_np \<and>
            power ext amp 2 = Inr squared \<and>
            array_times ext h_np squared = Inr (profile ! k))) \<and>
     tr = map (\<lambda>i. GetNumpyFromTensor (history ! i)) is"
proof (induction "is" arbitrary: tr profile)
  case Nil
  then show ?case by (simp add: ret_Inr)
next
  case (Cons i "is")
  from Cons.prems obtain h_np squared entry t2 rest where
    i: "i < length history" and
    h: "get_numpy_from_tensor ext (history ! i) = Inr h_np" and
    s: "power ext amp 2 = Inr squared" and
    e: "array_times ext h_np squared = Inr entry" and
    r: "training_profile_of ext history amp is = (t2, Inr rest)" and
    p: "profile = entry # rest" and
    t: "tr = GetNumpyFromTensor (history ! i) # t2"
    by (auto simp: io_Inr index_Inr numpy_of_def)
  from Cons.IH [OF r] show ?case
    using i h s e p t by (auto simp: nth_Cons split: nat.splits)
qed

lemma fst_bind_io:
  "fst (bind_io m f) = fst m @ (case snd m of Inl e \<Rightarrow> [] | Inr x \<Rightarrow> fst (f x))"
  by (auto simp: bind_io_def split: prod.splits sum.splits)

lemma fst_then_io:
  "fst (then_io m k) = fst m @ (case snd m of Inl e \<Rightarrow> [] | Inr x \<Rightarrow> fst k)"
  by (simp add: then_io_def fst_bind_io)

lemma snd_bind_io:
  "snd (bind_io m f) = (case snd m of Inl e \<Rightarrow> Inl e | Inr x \<Rightarrow> snd (f x))"
  by (auto simp: bind_io_def split: prod.splits sum.splits)

lemma snd_then_io:
  "snd (then_io m k) = (case snd m of Inl e \<Rightarrow> Inl e | Inr x \<Rightarrow> snd k)"
  by (simp add: then_io_def snd_bind_io)

lemma with_no_grad_sel:
  "fst (with_no_grad b) = NoGradEnter # fst b @ [NoGradExit]"
  "snd (with_no_grad b) = snd b"
  by (auto simp: with_no_grad_def split: prod.splits)

lemma prim_sel:
  "fst (emit e) = [e]" "snd (emit e) = Inr ()"
  "fst (call e r) = [e]" "snd (call e r) = r"
  "fst (lift r) = []" "snd (lift r) = r"
  "fst (ret x) = []" "snd (ret x) = Inr x"
  by (simp_all add: emit_def call_def lift_def ret_def)

lemmas io_sel = fst_bind_io snd_bind_io fst_then_io snd_then_io with_no_grad_sel prim_sel




lemma postprocess_and_plot_success:
  assumes "postprocess_and_plot ext configs dls amp results_dir m1 perf = (tr, Inr out)"
  shows "\<exists>t2 m2 t3 m3 t4 m4 history t5 profile.
      2 < length dls \<and>
      postprocess ext (dataset (dls ! 0)) m1 amp results_dir ''TRAINING'' = (t2, Inr m2) \<and>
      postprocess ext
        (if 0 < num_batches (dls ! 1) then dataset (dls ! 1) else take 1000 (dataset (dls ! 0)))
        m2 amp results_dir ''VALIDATION'' = (t3, Inr m3) \<and>
      (if 0 < num_batches (dls ! 2)
       then postprocess ext (dataset (dls ! 2)) m3 amp results_dir ''TEST''
       else ret m3) = (t4, Inr m4) \<and>
      getitem perf ''performance_history'' = Inr history \<and>
      training_profile_of ext history amp [0..<length history] = (t5, Inr profile) \<and>
      tr = t2 @ t3 @ t4 @ t5 @
           [Plt Figure, Plt (Plot profile None []), Plt (Title [Lit ''Training profile'']),
            Plt (Legend [''training'', ''validation'']),
            Plt (Savefig (FStr (os_path_join results_dir ''training_profile'')) None),
            Print (''Model saved in :'' @ results_dir)] \<and>
      out = configs"
  using assms
  unfolding postprocess_and_plot_def plt_def
  apply (simp only: io_Inr index_Inr split_paired_Ex prod.case)
  apply (elim exE conjE)
  apply (auto split: if_splits simp: io_Inr index_Inr)
  done

lemma train_surrogate_model_success:
  assumes "train_surrogate_model ext configs model criterion optimizer logger main_folder
             = (tr, Inr out)"
  shows "\<exists>base results_dir seed dls amp hyper m1 perf t.
      getitem configs ''results_base_dir'' = Inr base \<and>
      create_directory_timestamp ext base main_folder = Inr results_dir \<and>
      init_seed ext (seed_argument configs) True = Inr seed \<and>
      load_data ext (AList.update ''seed'' seed configs) = Inr (dls, amp) \<and>
      1 < length dls \<and>
      getitem (AList.update ''seed'' seed configs) ''hyperparameters'' = Inr hyper \<and>
      train ext model (dls ! 0, dls ! 1) criterion optimizer hyper logger results_dir
        = Inr (m1, perf) \<and>
      postprocess_and_plot ext (AList.update ''seed'' seed configs) dls amp results_dir m1 perf
        = (t, Inr out) \<and>
      tr = [CreateDirectoryTimestamp base main_folder,
            InitSeed (seed_argument configs) True,
            LoadData (AList.update ''seed'' seed configs),
            Train model (dls ! 0, dls ! 1) criterion optimizer hyper logger results_dir] @ t"
  using assms
  unfolding train_surrogate_model_def seed_argument_def Let_def
  apply (simp only: io_Inr index_Inr split_paired_Ex prod.case)
  apply (elim exE conjE)
  apply (auto split: if_splits simp: io_Inr index_Inr)
  done









lemma demo_run:
  "train_surrogate_model demo_externals demo_configs 0 1 2 PyNone ''training_data''
     = (demo_trace, Inr (demo_configs @ [(''seed'', PyInt 7)]))"
  by code_simp

lemma demo_postprocess:
  "postprocess demo_externals demo_samples 1 10 ''out'' ''TRAINING'' =
     (demo_postprocess_trace, Inr 1)"
  by code_simp

lemma tenth_postprocess:
  "postprocess demo_externals tenth_samples 1 3 ''out'' ''TRAINING'' =
     (tenth_postprocess_trace, Inr 1)"
  by code_simp

lemma plot_all_calls_append:
  "plot_all_calls (xs @ ys) = plot_all_calls xs @ plot_all_calls ys"
  by (induction xs rule: plot_all_calls.induct) simp_all

lemma postprocess_plot_all:
  assumes "PlotAll targets outputs d l \<in> set (fst (postprocess ext ds model amp dir label))"
  shows "\<exists>predictions t_np p_np.
      model_call ext (model_eval ext model) (map fst ds) = Inr predictions \<and>
      get_numpy_from_tensor ext (map snd ds) = Inr t_np \<and>
      get_numpy_from_tensor ext predictions = Inr p_np \<and>
      times_array ext amp t_np = Inr targets \<and>
      times_array ext amp p_np = Inr outputs \<and> d = dir \<and> l = label"
  using assms
  by (auto simp: postprocess_def io_sel numpy_of_def Let_def split: sum.splits prod.splits)
     metis

section \<open>Claims about train\_model.py\<close>

text \<open>
  C6 as stated fails: the arrays are multiplied in floating point. With float32 targets
  0.1 and 0.7 and amplification 3, \<open>plot_all\<close> receives 5033165/16777216 and
  4404019/2097152: the first is not 3 times the raw target, the two entries are not the
  raw entries times one common factor, and the product of a sum is not the sum of the
  products, so the map applied is not linear.
\<close>

theorem postprocess_not_linear_counterexample:
  "postprocess demo_externals tenth_samples 1 3 ''out'' ''TRAINING'' =
     (tenth_postprocess_trace, Inr 1) \<and>
   map snd tenth_samples = [tenth, seven_tenths] \<and>
   plot_all_calls tenth_postprocess_trace =
     [(''TRAINING'', [5033165 / 16777216, 4404019 / 2097152],
        [5033165 / 16777216, 4404019 / 2097152])] \<and>
   5033165 / 16777216 \<noteq> 3 * tenth \<and>
   (5033165 / 16777216) / tenth \<noteq> (4404019 / 2097152) / seven_tenths \<and>
   times_array demo_externals 3 [binary32 (tenth + seven_tenths)] = Inr [5033165 / 2097152] \<and>
   binary32 (5033165 / 16777216 + 4404019 / 2097152) = 10066329 / 4194304 \<and>
   (5033165 / 2097152 :: real) \<noteq> 10066329 / 4194304"
  using tenth_postprocess by code_simp

text \<open>
  C6, amended. In every run of \<open>postprocess\<close>, each call of \<open>plot_all\<close> receives the
  product of the amplification and the dataset's targets and the product of the same
  amplification and the model's outputs (both as \<open>get_numpy_from_tensor\<close> returns them),
  each product as the array library computes it, with the directory and the label of the
  call; a run that returns has made exactly one such call. Both arrays go through one
  and the same operation, \<open>times_array ext amplification\<close>.
\<close>

theorem postprocess_same_amplification:
  assumes "postprocess ext ds model amplification results_dir label = (tr, res)"
  shows "(\<forall>targets outputs d l. PlotAll targets outputs d l \<in> set tr \<longrightarrow>
            (\<exists>predictions t_np p_np.
               model_call ext (model_eval ext model) (map fst ds) = Inr predictions \<and>
               get_numpy_from_tensor ext (map snd ds) = Inr t_np \<and>
               get_numpy_from_tensor ext predictions = Inr p_np \<and>
               times_array ext amplification t_np = Inr targets \<and>
               times_array ext amplification p_np = Inr outputs \<and>
               d = results_dir \<and> l = label)) \<and>
         (\<forall>m. res = Inr m \<longrightarrow> length (plot_all_calls tr) = 1)"
proof (intro conjI allI impI)
  fix targets outputs d l
  assume "PlotAll targets outputs d l \<in> set tr"
  then have "PlotAll targets outputs d l
      \<in> set (fst (postprocess ext ds model amplification results_dir label))"
    using assms by simp
  from postprocess_plot_all [OF this]
  show "\<exists>predictions t_np p_np.
               model_call ext (model_eval ext model) (map fst ds) = Inr predictions \<and>
               get_numpy_from_tensor ext (map snd ds) = Inr t_np \<and>
               get_numpy_from_tensor ext predictions = Inr p_np \<and>
               times_array ext amplification t_np = Inr targets \<and>
               times_array ext amplification p_np = Inr outputs \<and>
               d = results_dir \<and> l = label" .
next
  fix m
  assume "res = Inr m"
  with assms have "postprocess ext ds model amplification results_dir label = (tr, Inr m)"
    by simp
  from postprocess_success [OF this] show "length (plot_all_calls tr) = 1"
    by auto
qed

theorem postprocess_same_amplification_witness:
  "postprocess demo_externals demo_samples 1 10 ''out'' ''TRAINING'' =
     (demo_postprocess_trace, Inr 1) \<and>
   PlotAll [30, 60] [30, 90] ''out'' ''TRAINING'' \<in> set demo_postprocess_trace \<and>
   times_array demo_externals 10 (map snd demo_samples) = Inr [30, 60] \<and>
   times_array demo_externals 10 (map sum_list (map fst demo_samples)) = Inr [30, 90]"
proof -
  note run = demo_postprocess
  have plotted: "PlotAll [30, 60] [30, 90] ''out'' ''TRAINING'' \<in> set demo_postprocess_trace"
    by (simp add: demo_postprocess_trace_def)
  with postprocess_same_amplification [OF run]
  obtain predictions t_np p_np where
    "model_call demo_externals (model_eval demo_externals 1) (map fst demo_samples)
       = Inr predictions"
    "get_numpy_from_tensor demo_externals (map snd demo_samples) = Inr t_np"
    "get_numpy_from_tensor demo_externals predictions = Inr p_np"
    "times_array demo_externals 10 t_np = Inr [30, 60]"
    "times_array demo_externals 10 p_np = Inr [30, 90]"
    by blast
  then have "times_array demo_externals 10 (map snd demo_samples) = Inr [30, 60] \<and>
      times_array demo_externals 10 (map sum_list (map fst demo_samples)) = Inr [30, 90]"
    by (auto simp: demo_externals_def)
  with run plotted show ?thesis by (intro conjI) simp_all
qed

lemma postprocess_no_plt:
  "postprocess ext ds model amp dir label = (t, r) \<Longrightarrow> Plt c \<notin> set t"
  by (auto simp: postprocess_def bind_io_def then_io_def emit_def call_def ret_def lift_def
      with_no_grad_def numpy_of_def Let_def split: sum.splits prod.splits)

lemma training_profile_of_events:
  "e \<in> set (fst (training_profile_of ext history amp is)) \<Longrightarrow> \<exists>t. e = GetNumpyFromTensor t"
  by (induction "is") (auto simp: io_sel numpy_of_def split: sum.splits)

lemma training_profile_of_no_plt:
  "training_profile_of ext history amp is = (t, r) \<Longrightarrow> Plt c \<notin> set t"
  using training_profile_of_events [of "Plt c" ext history amp "is"] by auto

text \<open>
  C5 as stated fails for the same reason: with amplification 10 and the float32 value
  0.1 in the performance history, the entry that is plotted is 10, which is not 0.1
  (as float32) times 100.
\<close>

theorem training_profile_not_exact_counterexample:
  "train_surrogate_model demo_externals demo_configs 0 1 2 PyNone ''training_data''
     = (demo_trace, Inr (demo_configs @ [(''seed'', PyInt 7)])) \<and>
   load_data demo_externals (demo_configs @ [(''seed'', PyInt 7)]) = Inr (demo_loaders, 10) \<and>
   train demo_externals 0 (demo_loaders ! 0, demo_loaders ! 1) 1 2 (PyObj 5) PyNone
       ''tmp/training_data_2021_01_01''
     = Inr (1, [(''performance_history'', [[tenth, 1], [9, 2]])]) \<and>
   Plt (Plot [[10, 100], [900, 200]] None []) \<in> set demo_trace \<and>
   [[10, 100], [900, 200]] ! 0 ! 0 \<noteq> [[tenth, 1], [9, 2]] ! 0 ! 0 * 10 ^ 2"
  using demo_run by code_simp

text \<open>
  C5, amended. In a run of \<open>train_surrogate_model\<close> that returns, the training profile
  that is plotted (the one \<open>plt.plot\<close> call of the run) has the length of
  \<open>performances['performance_history']\<close>, and its entry at each index is the product,
  as the array library computes it, of the entry of the performance history at that
  index (as \<open>get_numpy_from_tensor\<close> returns it) and \<open>amplification ** 2\<close>.
\<close>

theorem training_profile_scaled:
  assumes "train_surrogate_model ext configs model criterion optimizer logger main_folder
             = (tr, Inr out)"
  shows "\<exists>results_dir seed dls amplification hyper m1 performances history profile.
     load_data ext (AList.update ''seed'' seed configs) = Inr (dls, amplification) \<and>
     train ext model (dls ! 0, dls ! 1) criterion optimizer hyper logger results_dir
       = Inr (m1, performances) \<and>
     getitem performances ''performance_history'' = Inr history \<and>
     Plt (Plot profile None []) \<in> set tr \<and>
     (\<forall>p f l. Plt (Plot p f l) \<in> set tr \<longrightarrow> p = profile) \<and>
     length profile = length history \<and>
     (\<forall>i<length history. \<exists>h_np squared.
         get_numpy_from_tensor ext (history ! i) = Inr h_np \<and>
         power ext amplification 2 = Inr squared \<and>
         array_times ext h_np squared = Inr (profile ! i))"
proof -
  from train_surrogate_model_success [OF assms]
  obtain base results_dir seed dls amp hyper m1 perf t where
    l: "load_data ext (AList.update ''seed'' seed configs) = Inr (dls, amp)" and
    t: "train ext model (dls ! 0, dls ! 1) criterion optimizer hyper logger results_dir
          = Inr (m1, perf)" and
    pp: "postprocess_and_plot ext (AList.update ''seed'' seed configs) dls amp results_dir m1
          perf = (t, Inr out)" and
    tr: "tr = [CreateDirectoryTimestamp base main_folder,
            InitSeed (seed_argument configs) True,
            LoadData (AList.update ''seed'' seed configs),
            Train model (dls ! 0, dls ! 1) criterion optimizer hyper logger results_dir] @ t"
    by blast
  from postprocess_and_plot_success [OF pp]
  obtain t2 m2 t3 m3 t4 m4 history t5 profile where
    p2: "postprocess ext (dataset (dls ! 0)) m1 amp results_dir ''TRAINING'' = (t2, Inr m2)" and
    p3: "postprocess ext
        (if 0 < num_batches (dls ! 1) then dataset (dls ! 1) else take 1000 (dataset (dls ! 0)))
        m2 amp results_dir ''VALIDATION'' = (t3, Inr m3)" and
    p4: "(if 0 < num_batches (dls ! 2)
       then postprocess ext (dataset (dls ! 2)) m3 amp results_dir ''TEST''
       else ret m3) = (t4, Inr m4)" and
    h: "getitem perf ''performance_history'' = Inr history" and
    p5: "training_profile_of ext history amp [0..<length history] = (t5, Inr profile)" and
    t': "t = t2 @ t3 @ t4 @ t5 @
           [Plt Figure, Plt (Plot profile None []), Plt (Title [Lit ''Training profile'']),
            Plt (Legend [''training'', ''validation'']),
            Plt (Savefig (FStr (os_path_join results_dir ''training_profile'')) None),
            Print (''Model saved in :'' @ results_dir)]"
    by blast
  have n2: "\<And>c. Plt c \<notin> set t2"
    by (rule postprocess_no_plt [OF p2])
  have n3: "\<And>c. Plt c \<notin> set t3"
    by (rule postprocess_no_plt [OF p3])
  have n4: "\<And>c. Plt c \<notin> set t4"
    using p4 by (auto simp: ret_def dest: postprocess_no_plt split: if_splits)
  have n5: "\<And>c. Plt c \<notin> set t5"
    by (rule training_profile_of_no_plt [OF p5])
  have mem: "Plt (Plot profile None []) \<in> set tr"
    by (simp add: tr t')
  have uniq: "\<forall>p f l. Plt (Plot p f l) \<in> set tr \<longrightarrow> p = profile"
    using n2 n3 n4 n5 by (auto simp: tr t')
  from training_profile_of_success [OF p5]
  have len: "length profile = length history"
    and entries: "\<forall>i<length history. \<exists>h_np squared.
         get_numpy_from_tensor ext (history ! i) = Inr h_np \<and>
         power ext amp 2 = Inr squared \<and>
         array_times ext h_np squared = Inr (profile ! i)"
    by auto
  from l t h mem uniq len entries show ?thesis by blast
qed

theorem training_profile_scaled_witness:
  "train_surrogate_model demo_externals demo_configs 0 1 2 PyNone ''training_data''
     = (demo_trace, Inr (demo_configs @ [(''seed'', PyInt 7)])) \<and>
   (\<exists>profile. Plt (Plot profile None []) \<in> set demo_trace \<and> length profile = 2 \<and>
      array_times demo_externals [tenth, 1] (10 ^ 2) = Inr (profile ! 0) \<and>
      array_times demo_externals [9, 2] (10 ^ 2) = Inr (profile ! 1))"
proof -
  from training_profile_scaled [OF demo_run]
  obtain results_dir seed dls amplification hyper m1 performances history profile where
     l: "load_data demo_externals (AList.update ''seed'' seed demo_configs)
          = Inr (dls, amplification)" and
     t: "train demo_externals 0 (dls ! 0, dls ! 1) 1 2 hyper PyNone results_dir
       = Inr (m1, performances)" and
     h: "getitem performances ''performance_history'' = Inr history" and
     p: "Plt (Plot profile None []) \<in> set demo_trace" and
     len: "length profile = length history" and
     e: "\<forall>i<length history. \<exists>h_np squared.
         get_numpy_from_tensor demo_externals (history ! i) = Inr h_np \<and>
         power demo_externals amplification 2 = Inr squared \<and>
         array_times demo_externals h_np squared = Inr (profile ! i)"
    by blast
  from l have amp: "amplification = 10" by (simp add: demo_externals_def)
  from t h have hist: "history = [[tenth, 1], [9, 2]]"
    by (auto simp: demo_externals_def getitem_def)
  from e [rule_format, of 0] e [rule_format, of 1]
  have "array_times demo_externals [tenth, 1] (10 ^ 2) = Inr (profile ! 0) \<and>
      array_times demo_externals [9, 2] (10 ^ 2) = Inr (profile ! 1)"
    unfolding amp hist by (auto simp: demo_externals_def)
  with p len hist have "\<exists>profile. Plt (Plot profile None []) \<in> set demo_trace \<and>
      length profile = 2 \<and>
      array_times demo_externals [tenth, 1] (10 ^ 2) = Inr (profile ! 0) \<and>
      array_times demo_externals [9, 2] (10 ^ 2) = Inr (profile ! 1)"
    by (intro exI [of _ profile]) simp
  with demo_run show ?thesis by (rule conjI)
qed



lemma plot_all_calls_numpy [simp]:
  "plot_all_calls (map (\<lambda>i. GetNumpyFromTensor (f i)) is) = []"
  by (induction "is") simp_all

lemma run_plot_all_calls:
  assumes "train_surrogate_model ext configs model criterion optimizer logger main_folder
             = (tr, Inr out)"
  shows "\<exists>seed dls amp vds ma pa ta qa sta sqa mb pb tb qb stb sqb rest.
    load_data ext (AList.update ''seed'' seed configs) = Inr (dls, amp) \<and> 2 < length dls \<and>
    vds = (if 0 < num_batches (dls ! 1) then dataset (dls ! 1)
           else take 1000 (dataset (dls ! 0))) \<and>
    model_call ext ma (map fst (dataset (dls ! 0))) = Inr pa \<and>
    get_numpy_from_tensor ext (map snd (dataset (dls ! 0))) = Inr ta \<and>
    get_numpy_from_tensor ext pa = Inr qa \<and>
    times_array ext amp ta = Inr sta \<and>
    times_array ext amp qa = Inr sqa \<and>
    model_call ext mb (map fst vds) = Inr pb \<and>
    get_numpy_from_tensor ext (map snd vds) = Inr tb \<and>
    get_numpy_from_tensor ext pb = Inr qb \<and>
    times_array ext amp tb = Inr stb \<and>
    times_array ext amp qb = Inr sqb \<and>
    plot_all_calls tr = (''TRAINING'', sta, sqa) # (''VALIDATION'', stb, sqb) # rest \<and>
    (if 0 < num_batches (dls ! 2)
     then \<exists>mc pc tc qc stc sqc.
            model_call ext mc (map fst (dataset (dls ! 2))) = Inr pc \<and>
            get_numpy_from_tensor ext (map snd (dataset (dls ! 2))) = Inr tc \<and>
            get_numpy_from_tensor ext pc = Inr qc \<and>
            times_array ext amp tc = Inr stc \<and>
            times_array ext amp qc = Inr sqc \<and>
            rest = [(''TEST'', stc, sqc)]
     else rest = []) \<and>
    ModelCall ma (map fst (dataset (dls ! 0))) \<in> set tr \<and>
    ModelCall mb (map fst vds) \<in> set tr"
proof -
  from train_surrogate_model_success [OF assms]
  obtain base results_dir seed dls amp hyper m1 perf t where
    l: "load_data ext (AList.update ''seed'' seed configs) = Inr (dls, amp)" and
    pp: "postprocess_and_plot ext (AList.update ''seed'' seed configs) dls amp results_dir m1
          perf = (t, Inr out)" and
    tr: "tr = [CreateDirectoryTimestamp base main_folder,
            InitSeed (seed_argument configs) True,
            LoadData (AList.update ''seed'' seed configs),
            Train model (dls ! 0, dls ! 1) criterion optimizer hyper logger results_dir] @ t"
    by blast
  define vds where "vds = (if 0 < num_batches (dls ! 1) then dataset (dls ! 1)
           else take 1000 (dataset (dls ! 0)))"
  from postprocess_and_plot_success [OF pp]
  obtain t2 m2 t3 m3 t4 m4 history t5 profile where
    n: "2 < length dls" and
    p2: "postprocess ext (dataset (dls ! 0)) m1 amp results_dir ''TRAINING'' = (t2, Inr m2)" and
    p3: "postprocess ext vds m2 amp results_dir ''VALIDATION'' = (t3, Inr m3)" and
    p4: "(if 0 < num_batches (dls ! 2)
       then postprocess ext (dataset (dls ! 2)) m3 amp results_dir ''TEST''
       else ret m3) = (t4, Inr m4)" and
    p5: "training_profile_of ext history amp [0..<length history] = (t5, Inr profile)" and
    t': "t = t2 @ t3 @ t4 @ t5 @
           [Plt Figure, Plt (Plot profile None []), Plt (Title [Lit ''Training profile'']),
            Plt (Legend [''training'', ''validation'']),
            Plt (Savefig (FStr (os_path_join results_dir ''training_profile'')) None),
            Print (''Model saved in :'' @ results_dir)]"
    unfolding vds_def by blast
  from postprocess_success [OF p2] obtain pa ta qa sta sqa where
    a: "model_call ext (model_eval ext m1) (map fst (dataset (dls ! 0))) = Inr pa"
       "get_numpy_from_tensor ext (map snd (dataset (dls ! 0))) = Inr ta"
       "get_numpy_from_tensor ext pa = Inr qa"
       "times_array ext amp ta = Inr sta"
       "times_array ext amp qa = Inr sqa" and
    ca: "plot_all_calls t2 = [(''TRAINING'', sta, sqa)]" and
    ma: "ModelCall (model_eval ext m1) (map fst (dataset (dls ! 0))) \<in> set t2"
    by auto
  from postprocess_success [OF p3] obtain pb tb qb stb sqb where
    b: "model_call ext (model_eval ext m2) (map fst vds) = Inr pb"
       "get_numpy_from_tensor ext (map snd vds) = Inr tb"
       "get_numpy_from_tensor ext pb = Inr qb"
       "times_array ext amp tb = Inr stb"
       "times_array ext amp qb = Inr sqb" and
    cb: "plot_all_calls t3 = [(''VALIDATION'', stb, sqb)]" and
    mb: "ModelCall (model_eval ext m2) (map fst vds) \<in> set t3"
    by auto
  have c: "if 0 < num_batches (dls ! 2)
     then \<exists>mc pc tc qc stc sqc.
            model_call ext mc (map fst (dataset (dls ! 2))) = Inr pc \<and>
            get_numpy_from_tensor ext (map snd (dataset (dls ! 2))) = Inr tc \<and>
            get_numpy_from_tensor ext pc = Inr qc \<and>
            times_array ext amp tc = Inr stc \<and>
            times_array ext amp qc = Inr sqc \<and>
            plot_all_calls t4 = [(''TEST'', stc, sqc)]
     else plot_all_calls t4 = []"
  proof (cases "0 < num_batches (dls ! 2)")
    case True
    with p4 have "postprocess ext (dataset (dls ! 2)) m3 amp results_dir ''TEST''
        = (t4, Inr m4)" by simp
    from postprocess_success [OF this] True show ?thesis by force
  next
    case False
    with p4 show ?thesis by (simp add: ret_def)
  qed
  from training_profile_of_success [OF p5] have c5: "plot_all_calls t5 = []"
    by simp
  have calls: "plot_all_calls tr =
      (''TRAINING'', sta, sqa) # (''VALIDATION'', stb, sqb) # plot_all_calls t4"
    by (simp add: tr t' plot_all_calls_append ca cb c5)
  have mem: "ModelCall (model_eval ext m1) (map fst (dataset (dls ! 0))) \<in> set tr"
     "ModelCall (model_eval ext m2) (map fst vds) \<in> set tr"
    using ma mb by (simp_all add: tr t')
  from l n a b calls c mem show ?thesis
    unfolding vds_def by blast
qed


text \<open>
  C2 as stated fails: the three post-processing steps are written one after the other,
  and the one for the test split is guarded by \<open>len(dataloaders[2]) > 0\<close>. In the
  concrete run the call returns, the test loader has a sample and length zero, and
  \<open>plot_all\<close> is called for \<open>TRAINING\<close> and \<open>VALIDATION\<close> only.
\<close>

theorem test_split_counterexample:
  "train_surrogate_model demo_externals demo_configs 0 1 2 PyNone ''training_data''
     = (demo_trace, Inr (demo_configs @ [(''seed'', PyInt 7)])) \<and>
   load_data demo_externals (demo_configs @ [(''seed'', PyInt 7)]) = Inr (demo_loaders, 10) \<and>
   dataset (demo_loaders ! 2) = [([7, 8], 9)] \<and>
   num_batches (demo_loaders ! 2) = 0 \<and>
   map fst (plot_all_calls demo_trace) = [''TRAINING'', ''VALIDATION'']"
  using demo_run by (simp add: demo_externals_def demo_loaders_def demo_trace_def)

text \<open>
  C2, amended. In every run that returns, the dataset of the training split is
  post-processed first, with label \<open>TRAINING\<close>; the second call of \<open>plot_all\<close> has
  label \<open>VALIDATION\<close>, and it is made on the dataset of the validation split when
  \<open>len(dataloaders[1]) > 0\<close>; a third call, with label \<open>TEST\<close> and on the dataset of
  the test split, is made exactly when \<open>len(dataloaders[2]) > 0\<close>, and there is no call
  labelled \<open>TEST\<close> otherwise.
\<close>

theorem splits_postprocessed:
  assumes "train_surrogate_model ext configs model criterion optimizer logger main_folder
             = (tr, Inr out)"
  shows "\<exists>seed dls amp ma pa ta qa sta sqa rest.
    load_data ext (AList.update ''seed'' seed configs) = Inr (dls, amp) \<and> 2 < length dls \<and>
    model_call ext ma (map fst (dataset (dls ! 0))) = Inr pa \<and>
    get_numpy_from_tensor ext (map snd (dataset (dls ! 0))) = Inr ta \<and>
    get_numpy_from_tensor ext pa = Inr qa \<and>
    times_array ext amp ta = Inr sta \<and>
    times_array ext amp qa = Inr sqa \<and>
    plot_all_calls tr = (''TRAINING'', sta, sqa) # rest \<and>
    map fst rest = ''VALIDATION'' # (if 0 < num_batches (dls ! 2) then [''TEST''] else []) \<and>
    (0 < num_batches (dls ! 1) \<longrightarrow>
       (\<exists>mb pb tb qb stb sqb.
          model_call ext mb (map fst (dataset (dls ! 1))) = Inr pb \<and>
          get_numpy_from_tensor ext (map snd (dataset (dls ! 1))) = Inr tb \<and>
          get_numpy_from_tensor ext pb = Inr qb \<and>
          times_array ext amp tb = Inr stb \<and>
          times_array ext amp qb = Inr sqb \<and>
          rest ! 0 = (''VALIDATION'', stb, sqb))) \<and>
    (0 < num_batches (dls ! 2) \<longrightarrow>
       (\<exists>mc pc tc qc stc sqc.
          model_call ext mc (map fst (dataset (dls ! 2))) = Inr pc \<and>
          get_numpy_from_tensor ext (map snd (dataset (dls ! 2))) = Inr tc \<and>
          get_numpy_from_tensor ext pc = Inr qc \<and>
          times_array ext amp tc = Inr stc \<and>
          times_array ext amp qc = Inr sqc \<and>
          rest ! 1 = (''TEST'', stc, sqc)))"
proof -
  from run_plot_all_calls [OF assms]
  obtain seed dls amp vds ma pa ta qa sta sqa mb pb tb qb stb sqb rest where
    l: "load_data ext (AList.update ''seed'' seed configs) = Inr (dls, amp)" "2 < length dls" and
    vds: "vds = (if 0 < num_batches (dls ! 1) then dataset (dls ! 1)
           else take 1000 (dataset (dls ! 0)))" and
    a: "model_call ext ma (map fst (dataset (dls ! 0))) = Inr pa"
       "get_numpy_from_tensor ext (map snd (dataset (dls ! 0))) = Inr ta"
       "get_numpy_from_tensor ext pa = Inr qa"
       "times_array ext amp ta = Inr sta"
       "times_array ext amp qa = Inr sqa" and
    b: "model_call ext mb (map fst vds) = Inr pb"
       "get_numpy_from_tensor ext (map snd vds) = Inr tb"
       "get_numpy_from_tensor ext pb = Inr qb"
       "times_array ext amp tb = Inr stb"
       "times_array ext amp qb = Inr sqb" and
    calls: "plot_all_calls tr = (''TRAINING'', sta, sqa) # (''VALIDATION'', stb, sqb) # rest" and
    c: "if 0 < num_batches (dls ! 2)
     then \<exists>mc pc tc qc stc sqc.
            model_call ext mc (map fst (dataset (dls ! 2))) = Inr pc \<and>
            get_numpy_from_tensor ext (map snd (dataset (dls ! 2))) = Inr tc \<and>
            get_numpy_from_tensor ext pc = Inr qc \<and>
            times_array ext amp tc = Inr stc \<and>
            times_array ext amp qc = Inr sqc \<and>
            rest = [(''TEST'', stc, sqc)]
     else rest = []" and
    mem: "ModelCall mb (map fst vds) \<in> set tr"
    by blast
  let ?rest = "(''VALIDATION'', stb, sqb) # rest"
  have labels: "map fst ?rest
      = ''VALIDATION'' # (if 0 < num_batches (dls ! 2) then [''TEST''] else [])"
    using c by (auto split: if_splits)
  have val: "0 < num_batches (dls ! 1) \<longrightarrow>
       (\<exists>mb pb tb qb stb sqb.
          model_call ext mb (map fst (dataset (dls ! 1))) = Inr pb \<and>
          get_numpy_from_tensor ext (map snd (dataset (dls ! 1))) = Inr tb \<and>
          get_numpy_from_tensor ext pb = Inr qb \<and>
          times_array ext amp tb = Inr stb \<and>
          times_array ext amp qb = Inr sqb \<and>
          ?rest ! 0 = (''VALIDATION'', stb, sqb))"
    using b vds by force
  have test: "0 < num_batches (dls ! 2) \<longrightarrow>
       (\<exists>mc pc tc qc stc sqc.
          model_call ext mc (map fst (dataset (dls ! 2))) = Inr pc \<and>
          get_numpy_from_tensor ext (map snd (dataset (dls ! 2))) = Inr tc \<and>
          get_numpy_from_tensor ext pc = Inr qc \<and>
          times_array ext amp tc = Inr stc \<and>
          times_array ext amp qc = Inr sqc \<and>
          ?rest ! 1 = (''TEST'', stc, sqc))"
    using c by force
  show ?thesis
    apply (rule exI [of _ seed], rule exI [of _ dls], rule exI [of _ amp])
    apply (rule exI [of _ ma], rule exI [of _ pa], rule exI [of _ ta], rule exI [of _ qa])
    apply (rule exI [of _ sta], rule exI [of _ sqa], rule exI [of _ ?rest])
    using l a calls labels val test apply (intro conjI)
              apply assumption+
    done
qed

theorem splits_postprocessed_witness:
  "train_surrogate_model demo_externals demo_configs 0 1 2 PyNone ''training_data''
     = (demo_trace, Inr (demo_configs @ [(''seed'', PyInt 7)])) \<and>
   (\<exists>rest. plot_all_calls demo_trace = (''TRAINING'', [30, 60], [30, 90]) # rest \<and>
      map fst rest = [''VALIDATION''])"
proof -
  from splits_postprocessed [OF demo_run]
  obtain seed dls amp sta sqa rest where
    l: "load_data demo_externals (AList.update ''seed'' seed demo_configs) = Inr (dls, amp)" and
    calls: "plot_all_calls demo_trace = (''TRAINING'', sta, sqa) # rest" and
    labels: "map fst rest
      = ''VALIDATION'' # (if 0 < num_batches (dls ! 2) then [''TEST''] else [])"
    by (elim exE conjE) (rule that, assumption+)
  from l have "dls = demo_loaders" by (simp add: demo_externals_def)
  with labels have "map fst rest = [''VALIDATION'']" by (simp add: demo_loaders_def)
  moreover from calls have "plot_all_calls demo_trace = (''TRAINING'', [30, 60], [30, 90]) # rest"
    by (auto simp: demo_trace_def)
  ultimately have "\<exists>rest. plot_all_calls demo_trace = (''TRAINING'', [30, 60], [30, 90]) # rest \<and>
      map fst rest = [''VALIDATION'']"
    by (intro exI [of _ rest] conjI)
  with demo_run show ?thesis by (rule conjI)
qed

text \<open>
  C4. In every run that returns there is exactly one call of \<open>plot_all\<close> labelled
  \<open>VALIDATION\<close>. When \<open>len(dataloaders[1]) = 0\<close> the model was called on the inputs
  of the first 1000 samples of the training dataset and the call plots their targets;
  otherwise the whole validation dataset is used.
\<close>

theorem validation_postprocessing:
  assumes "train_surrogate_model ext configs model criterion optimizer logger main_folder
             = (tr, Inr out)"
  shows "\<exists>seed dls amp vds mb pb tb qb stb sqb.
    load_data ext (AList.update ''seed'' seed configs) = Inr (dls, amp) \<and>
    vds = (if num_batches (dls ! 1) = 0 then take 1000 (dataset (dls ! 0))
           else dataset (dls ! 1)) \<and>
    model_call ext mb (map fst vds) = Inr pb \<and>
    get_numpy_from_tensor ext (map snd vds) = Inr tb \<and>
    get_numpy_from_tensor ext pb = Inr qb \<and>
    times_array ext amp tb = Inr stb \<and>
    times_array ext amp qb = Inr sqb \<and>
    ModelCall mb (map fst vds) \<in> set tr \<and>
    filter (\<lambda>c. fst c = ''VALIDATION'') (plot_all_calls tr) = [(''VALIDATION'', stb, sqb)]"
proof -
  from run_plot_all_calls [OF assms]
  obtain seed dls amp vds ma pa ta qa sta sqa mb pb tb qb stb sqb rest where
    l: "load_data ext (AList.update ''seed'' seed configs) = Inr (dls, amp)" "2 < length dls" and
    vds: "vds = (if 0 < num_batches (dls ! 1) then dataset (dls ! 1)
           else take 1000 (dataset (dls ! 0)))" and
    a: "model_call ext ma (map fst (dataset (dls ! 0))) = Inr pa"
       "get_numpy_from_tensor ext (map snd (dataset (dls ! 0))) = Inr ta"
       "get_numpy_from_tensor ext pa = Inr qa"
       "times_array ext amp ta = Inr sta"
       "times_array ext amp qa = Inr sqa" and
    b: "model_call ext mb (map fst vds) = Inr pb"
       "get_numpy_from_tensor ext (map snd vds) = Inr tb"
       "get_numpy_from_tensor ext pb = Inr qb"
       "times_array ext amp tb = Inr stb"
       "times_array ext amp qb = Inr sqb" and
    calls: "plot_all_calls tr = (''TRAINING'', sta, sqa) # (''VALIDATION'', stb, sqb) # rest" and
    c: "if 0 < num_batches (dls ! 2)
     then \<exists>mc pc tc qc stc sqc.
            model_call ext mc (map fst (dataset (dls ! 2))) = Inr pc \<and>
            get_numpy_from_tensor ext (map snd (dataset (dls ! 2))) = Inr tc \<and>
            get_numpy_from_tensor ext pc = Inr qc \<and>
            times_array ext amp tc = Inr stc \<and>
            times_array ext amp qc = Inr sqc \<and>
            rest = [(''TEST'', stc, sqc)]
     else rest = []" and
    mem: "ModelCall mb (map fst vds) \<in> set tr"
    by blast
  have vds': "vds = (if num_batches (dls ! 1) = 0 then take 1000 (dataset (dls ! 0))
           else dataset (dls ! 1))"
    using vds by simp
  have "filter (\<lambda>c. fst c = ''VALIDATION'') rest = []"
    using c by (auto split: if_splits)
  then have "filter (\<lambda>c. fst c = ''VALIDATION'') (plot_all_calls tr)
      = [(''VALIDATION'', stb, sqb)]"
    by (simp add: calls)
  with l vds' b mem show ?thesis
    apply (rule_tac x = seed in exI, rule_tac x = dls in exI, rule_tac x = amp in exI)
    apply (rule_tac x = vds in exI, rule_tac x = mb in exI, rule_tac x = pb in exI)
    apply (rule_tac x = tb in exI, rule_tac x = qb in exI)
    apply (rule_tac x = stb in exI, rule_tac x = sqb in exI)
    apply (intro conjI)
            apply assumption+
    done
qed

theorem validation_postprocessing_witness:
  "train_surrogate_model demo_externals demo_configs 0 1 2 PyNone ''training_data''
     = (demo_trace, Inr (demo_configs @ [(''seed'', PyInt 7)])) \<and>
   num_batches (demo_loaders ! 1) = 0 \<and>
   ModelCall 1 (map fst (take 1000 (dataset (demo_loaders ! 0)))) \<in> set demo_trace \<and>
   times_array demo_externals 10 (map snd (take 1000 (dataset (demo_loaders ! 0))))
     = Inr [30, 60] \<and>
   filter (\<lambda>c. fst c = ''VALIDATION'') (plot_all_calls demo_trace)
     = [(''VALIDATION'', [30, 60], [30, 90])]"
proof -
  from validation_postprocessing [OF demo_run]
  obtain seed dls amp vds mb tb stb sqb where
    l: "load_data demo_externals (AList.update ''seed'' seed demo_configs) = Inr (dls, amp)" and
    vds: "vds = (if num_batches (dls ! 1) = 0 then take 1000 (dataset (dls ! 0))
           else dataset (dls ! 1))" and
    b: "get_numpy_from_tensor demo_externals (map snd vds) = Inr tb"
       "times_array demo_externals amp tb = Inr stb" and
    mem: "ModelCall mb (map fst vds) \<in> set demo_trace" and
    calls: "filter (\<lambda>c. fst c = ''VALIDATION'') (plot_all_calls demo_trace)
      = [(''VALIDATION'', stb, sqb)]"
    by (elim exE conjE) (rule that, assumption+)
  from l have dls: "dls = demo_loaders" and amp: "amp = 10"
    by (simp_all add: demo_externals_def)
  have nb: "num_batches (demo_loaders ! 1) = 0" by (simp add: demo_loaders_def)
  with vds dls have v: "vds = take 1000 (dataset (demo_loaders ! 0))" by simp
  from b have tb: "tb = map snd vds" by (simp add: demo_externals_def)
  from mem have "mb = 1"
    by (auto simp: demo_trace_def)
  with mem v have m: "ModelCall 1 (map fst (take 1000 (dataset (demo_loaders ! 0))))
      \<in> set demo_trace" by simp
  from calls have st: "stb = [30, 60]" and sq: "sqb = [30, 90]"
    by (simp_all add: demo_trace_def)
  from b tb v amp st have t: "times_array demo_externals 10
      (map snd (take 1000 (dataset (demo_loaders ! 0)))) = Inr [30, 60]" by simp
  from calls st sq have f: "filter (\<lambda>c. fst c = ''VALIDATION'') (plot_all_calls demo_trace)
     = [(''VALIDATION'', [30, 60], [30, 90])]" by simp
  from demo_run nb m t f show ?thesis by (intro conjI)
qed

















section \<open>Claims about plots.py\<close>





lemma savefig_calls_append:
  "savefig_calls (xs @ ys) = savefig_calls xs @ savefig_calls ys"
  by (induction xs rule: savefig_calls.induct) simp_all











































end
